theory Spec2Isabelle
  imports Main
begin

section \<open>The User ID controller (src/ctrl/user-id.js)\<close>

subsection \<open>Documents, options and results\<close>

text \<open>
  A database document, as the header comment of the source gives its format. A JavaScript
  object may lack any of its properties, so every field is optional (\<open>None\<close> is
  \<open>undefined\<close>). \<open>doc_id\<close> is the property \<open>_id\<close>.
\<close>

record userid_doc =
  doc_id :: "nat option"
  email :: "string option"
  name :: "string option"
  keyid :: "string option"
  nonce :: "string option"
  verified :: "bool option"

text \<open>
  The \<open>options\<close> argument of the three methods: \<open>options.keyid\<close> and
  \<open>options.userIds\<close>, either of which a caller may leave out.
\<close>

record options =
  options_keyid :: "string option"
  options_userIds :: "userid_doc list option"

text \<open>The two filters the controller builds: \<open>{ keyid }\<close> and \<open>{ email:uid.email }\<close>.\<close>

datatype query = Keyid_query "string option" | Email_query "string option"

text \<open>What the client's \<open>batch\<close> resolves to; the controller reads \<open>r.insertedCount\<close>.\<close>

record insert_result =
  insertedCount :: nat

text \<open>
  What a method throws: the controller's own \<open>new Error(message)\<close>, the
  \<open>TypeError\<close> of reading a property of \<open>undefined\<close>, or the rejection of
  the client's promise, which \<open>yield\<close> rethrows unchanged.
\<close>

datatype 'e thrown = Error string | TypeError | Rejection 'e

text \<open>What a method returns: nothing, one document, or an array of documents.\<close>

datatype js_result = Undefined | Object userid_doc | Array "userid_doc list"

definition DB_TYPE :: string where
  "DB_TYPE = ''userid''"

text \<open>
  JavaScript truthiness of \<open>options.keyid\<close> (a string or \<open>undefined\<close>: the
  empty string is falsy) and of \<open>u.verified\<close> (a boolean or \<open>undefined\<close>).
\<close>

definition truthy_string :: "string option \<Rightarrow> bool" where
  "truthy_string v = (case v of None \<Rightarrow> False | Some str \<Rightarrow> str \<noteq> [])"

definition truthy_bool :: "bool option \<Rightarrow> bool" where
  "truthy_bool v = (case v of None \<Rightarrow> False | Some b \<Rightarrow> b)"

subsection \<open>The injected client and the controller\<close>

text \<open>
  The MongoDB client handed to the constructor. The controller calls three of its methods,
  each with the collection name as second argument; each may change the client's state
  \<open>'s\<close> and either resolves or rejects with an \<open>'e\<close>. The client is
  handed the documents by value: what it may write to the array or to its objects is not
  modelled.
\<close>

record ('e, 's) mongo =
  mongo_batch :: "userid_doc list \<Rightarrow> string \<Rightarrow> 's \<Rightarrow> ('e + insert_result) \<times> 's"
  mongo_list :: "query \<Rightarrow> string \<Rightarrow> 's \<Rightarrow> ('e + userid_doc list) \<times> 's"
  mongo_remove :: "query \<Rightarrow> string \<Rightarrow> 's \<Rightarrow> ('e + unit) \<times> 's"

text \<open>The class \<open>UserId\<close>: its only field is \<open>this._mongo\<close>.\<close>

record ('e, 's) UserId =
  this_mongo :: "('e, 's) mongo"

definition constructor :: "('e, 's) mongo \<Rightarrow> ('e, 's) UserId" where
  "constructor mongo = \<lparr>this_mongo = mongo\<rparr>"

text \<open>
  \<open>options.userIds.forEach(u => u.keyid = options.keyid)\<close>: the assignment writes the
  property of each caller's object in place.
\<close>

definition set_keyid :: "string option \<Rightarrow> userid_doc list \<Rightarrow> userid_doc list" where
  "set_keyid k us = map (\<lambda>u. u\<lparr>keyid := k\<rparr>) us"

text \<open>
  \<open>*batch(options)\<close>. The result is what the generator throws or returns, the
  \<open>options\<close> object as the call leaves it (the caller still holds it), and the
  client's state. The generator has no \<open>return\<close> statement.
\<close>

definition batch ::
  "('e, 's) UserId \<Rightarrow> options \<Rightarrow> 's \<Rightarrow> ('e thrown + js_result) \<times> options \<times> 's" where
  "batch this opts s =
     (case options_userIds opts of
        None \<Rightarrow> (Inl TypeError, opts, s)
      | Some us \<Rightarrow>
          (let docs = set_keyid (options_keyid opts) us;
               opts' = opts\<lparr>options_userIds := Some docs\<rparr>
           in case mongo_batch (this_mongo this) docs DB_TYPE s of
                (Inl e, s') \<Rightarrow> (Inl (Rejection e), opts', s')
              | (Inr r, s') \<Rightarrow>
                  if insertedCount r \<noteq> length docs
                  then (Inl (Error ''Failed to persist user ids''), opts', s')
                  else (Inr Undefined, opts', s')))"

text \<open>\<open>uids.find(u => u.verified)\<close>: the first truthy one, or \<open>undefined\<close>.\<close>

definition find_verified :: "userid_doc list \<Rightarrow> userid_doc option" where
  "find_verified uids = find (\<lambda>u. truthy_bool (verified u)) uids"

text \<open>The loop \<open>for (let uid of userIds)\<close> of \<open>getVerfied\<close>.\<close>

fun by_email ::
  "('e, 's) UserId \<Rightarrow> userid_doc list \<Rightarrow> 's \<Rightarrow> ('e thrown + js_result) \<times> 's" where
  "by_email this [] s = (Inr Undefined, s)"
| "by_email this (uid # rest) s =
     (case mongo_list (this_mongo this) (Email_query (email uid)) DB_TYPE s of
        (Inl e, s') \<Rightarrow> (Inl (Rejection e), s')
      | (Inr uids, s') \<Rightarrow>
          (case find_verified uids of
             Some v \<Rightarrow> (Inr (Object v), s')
           | None \<Rightarrow> by_email this rest s'))"

text \<open>The second half of \<open>getVerfied\<close>: \<open>if (userIds) { ... }\<close>, then falling off the end.\<close>

definition try_emails ::
  "('e, 's) UserId \<Rightarrow> options \<Rightarrow> 's \<Rightarrow> ('e thrown + js_result) \<times> 's" where
  "try_emails this opts s =
     (case options_userIds opts of
        None \<Rightarrow> (Inr Undefined, s)
      | Some us \<Rightarrow> by_email this us s)"

text \<open>\<open>*getVerfied(options)\<close>.\<close>

definition getVerfied ::
  "('e, 's) UserId \<Rightarrow> options \<Rightarrow> 's \<Rightarrow> ('e thrown + js_result) \<times> 's" where
  "getVerfied this opts s =
     (if truthy_string (options_keyid opts)
      then (case mongo_list (this_mongo this) (Keyid_query (options_keyid opts)) DB_TYPE s of
              (Inl e, s') \<Rightarrow> (Inl (Rejection e), s')
            | (Inr uids, s') \<Rightarrow>
                (case find_verified uids of
                   Some v \<Rightarrow> (Inr (Object v), s')
                 | None \<Rightarrow> try_emails this opts s'))
      else try_emails this opts s)"

text \<open>\<open>*remove(options)\<close>.\<close>

definition remove ::
  "('e, 's) UserId \<Rightarrow> options \<Rightarrow> 's \<Rightarrow> ('e thrown + js_result) \<times> 's" where
  "remove this opts s =
     (case mongo_remove (this_mongo this) (Keyid_query (options_keyid opts)) DB_TYPE s of
        (Inl e, s') \<Rightarrow> (Inl (Rejection e), s')
      | (Inr u, s') \<Rightarrow> (Inr Undefined, s'))"

subsection \<open>The document store of the specification\<close>

text \<open>
  Modelled from the spec: the client behind \<open>this._mongo\<close> (the DocumentCollection of
  section 6 of the specification) is not under src/. The store keeps, for each collection
  name, the sequence of its documents, and the next identifier it will assign.
\<close>

record store =
  collections :: "string \<Rightarrow> userid_doc list"
  next_id :: nat

text \<open>
  Modelled from the spec: an equality filter (\<open>{keyId: x}\<close> or \<open>{email: y}\<close>)
  matches the documents whose field equals the given value.
\<close>

fun matches :: "query \<Rightarrow> userid_doc \<Rightarrow> bool" where
  "matches (Keyid_query k) d = (keyid d = k)"
| "matches (Email_query e) d = (email d = e)"

text \<open>
  Modelled from the spec: \<open>find(filter, collectionName)\<close> returns all documents
  matching the filter.
\<close>

definition store_find :: "query \<Rightarrow> string \<Rightarrow> store \<Rightarrow> (unit + userid_doc list) \<times> store" where
  "store_find q c st = (Inr (filter (matches q) (collections st c)), st)"

text \<open>
  Modelled from the spec: \<open>deleteMany(filter, collectionName)\<close> deletes all documents
  matching the filter.
\<close>

definition store_deleteMany :: "query \<Rightarrow> string \<Rightarrow> store \<Rightarrow> (unit + unit) \<times> store" where
  "store_deleteMany q c st =
     (Inr (), st\<lparr>collections := (collections st)(c := filter (\<lambda>d. \<not> matches q d) (collections st c))\<rparr>)"

text \<open>
  Modelled from the spec: \<open>insertMany(records, collectionName)\<close> attempts to insert all
  given records and returns how many succeeded; the store assigns the identifier of each
  inserted record. Which inserts succeed is the store's affair: \<open>fails i\<close> says that the
  insert of the record at position \<open>i\<close> of the request does not succeed.
\<close>

definition succeeded :: "(nat \<Rightarrow> bool) \<Rightarrow> userid_doc list \<Rightarrow> userid_doc list" where
  "succeeded fails recs = map snd (filter (\<lambda>p. \<not> fails (fst p)) (enumerate 0 recs))"

definition assign_ids :: "nat \<Rightarrow> userid_doc list \<Rightarrow> userid_doc list" where
  "assign_ids n recs = map (\<lambda>p. (snd p)\<lparr>doc_id := Some (fst p)\<rparr>) (enumerate n recs)"

definition store_insertMany ::
  "(nat \<Rightarrow> bool) \<Rightarrow> userid_doc list \<Rightarrow> string \<Rightarrow> store \<Rightarrow> (unit + insert_result) \<times> store" where
  "store_insertMany fails recs c st =
     (let new = assign_ids (next_id st) (succeeded fails recs)
      in (Inr \<lparr>insertedCount = length new\<rparr>,
          st\<lparr>collections := (collections st)(c := collections st c @ new),
             next_id := next_id st + length new\<rparr>))"

definition store_mongo :: "(nat \<Rightarrow> bool) \<Rightarrow> (unit, store) mongo" where
  "store_mongo fails =
     \<lparr>mongo_batch = store_insertMany fails, mongo_list = store_find, mongo_remove = store_deleteMany\<rparr>"

subsection \<open>What a lookup yields\<close>

text \<open>
  The two statements of \<open>getVerfied\<close> that follow each query,
  \<open>let uids = yield this._mongo.list(q, DB_TYPE); let verified = uids.find(u => u.verified)\<close>,
  seen from outside: the query \<open>q\<close>, made in state \<open>s\<close>, is answered and leaves the
  client as it was, and the first verified document of the answer is \<open>v\<close>
  (\<open>lookup_finds\<close>), or the answer holds no verified document (\<open>lookup_finds_none\<close>).
\<close>

definition lookup_finds :: "('e, 's) mongo \<Rightarrow> query \<Rightarrow> 's \<Rightarrow> userid_doc \<Rightarrow> bool" where
  "lookup_finds m q s v \<longleftrightarrow>
     (\<exists>uids. mongo_list m q DB_TYPE s = (Inr uids, s) \<and> find_verified uids = Some v)"

definition lookup_finds_none :: "('e, 's) mongo \<Rightarrow> query \<Rightarrow> 's \<Rightarrow> bool" where
  "lookup_finds_none m q s \<longleftrightarrow>
     (\<exists>uids. mongo_list m q DB_TYPE s = (Inr uids, s) \<and> find_verified uids = None)"

subsection \<open>Example data\<close>

text \<open>A store whose inserts all succeed, and one that fails the first record of a request.\<close>

definition never_fails :: "nat \<Rightarrow> bool" where
  "never_fails i = False"

definition fails_first :: "nat \<Rightarrow> bool" where
  "fails_first i = (i = 0)"

text \<open>The draft of the insert scenario, and the same draft carrying another key id.\<close>

definition jon :: userid_doc where
  "jon = \<lparr>doc_id = None, email = Some ''jon@example.com'', name = Some ''Jon Smith'',
          keyid = None, nonce = Some ''123e4567-e89b-12d3-a456-426655440000'',
          verified = Some False\<rparr>"

definition jon_stale :: userid_doc where
  "jon_stale = jon\<lparr>keyid := Some ''FFFFFFFFFFFFFFFF''\<rparr>"

definition empty_store :: store where
  "empty_store = \<lparr>collections = (\<lambda>c. []), next_id = 0\<rparr>"

text \<open>
  A store with three user ids of key \<open>ABCD\<close> (one unverified, one verified, one with
  \<open>verified\<close> unset) and two of key \<open>EF01\<close>.
\<close>

definition alice :: userid_doc where
  "alice = \<lparr>doc_id = Some 0, email = Some ''a@x'', name = Some ''Alice'', keyid = Some ''ABCD'',
            nonce = Some ''n0'', verified = Some False\<rparr>"

definition bob :: userid_doc where
  "bob = \<lparr>doc_id = Some 1, email = Some ''b@x'', name = Some ''Bob'', keyid = Some ''ABCD'',
          nonce = Some ''n1'', verified = Some True\<rparr>"

definition carol :: userid_doc where
  "carol = \<lparr>doc_id = Some 2, email = Some ''c@x'', name = Some ''Carol'', keyid = Some ''ABCD'',
            nonce = Some ''n2'', verified = None\<rparr>"

definition dave :: userid_doc where
  "dave = \<lparr>doc_id = Some 3, email = Some ''d@x'', name = Some ''Dave'', keyid = Some ''EF01'',
           nonce = Some ''n3'', verified = Some False\<rparr>"

definition erin :: userid_doc where
  "erin = \<lparr>doc_id = Some 4, email = Some ''e@x'', name = Some ''Erin'', keyid = Some ''EF01'',
           nonce = Some ''n4'', verified = Some True\<rparr>"

definition example_store :: store where
  "example_store =
     \<lparr>collections = (\<lambda>c. if c = DB_TYPE then [alice, bob, carol, dave, erin] else []),
      next_id = 5\<rparr>"

text \<open>Candidate user ids, which carry only an email address.\<close>

definition candidate :: "string \<Rightarrow> userid_doc" where
  "candidate e = \<lparr>doc_id = None, email = Some e, name = None, keyid = None, nonce = None,
                   verified = None\<rparr>"

section \<open>Properties\<close>

subsection \<open>Auxiliary facts\<close>

lemma truthy_bool_iff: "truthy_bool v \<longleftrightarrow> v = Some True"
  by (simp add: truthy_bool_def split: option.splits)

lemma truthy_string_Some [simp]: "truthy_string (Some K) \<longleftrightarrow> K \<noteq> []"
  by (simp add: truthy_string_def)

lemma truthy_string_None [simp]: "\<not> truthy_string None"
  by (simp add: truthy_string_def)

lemma find_verified_SomeD:
  "find_verified uids = Some v \<Longrightarrow> verified v = Some True \<and> v \<in> set uids"
  by (auto simp: find_verified_def find_Some_iff truthy_bool_iff)

lemma store_batch_simp [simp]:
  "mongo_batch (this_mongo (constructor (store_mongo fails))) = store_insertMany fails"
  by (simp add: constructor_def store_mongo_def)

lemma store_list_simp [simp]:
  "mongo_list (this_mongo (constructor (store_mongo fails))) q c st
     = (Inr (filter (matches q) (collections st c)), st)"
  by (simp add: constructor_def store_mongo_def store_find_def)

lemma store_remove_simp [simp]:
  "mongo_remove (this_mongo (constructor (store_mongo fails))) q c st
     = (Inr (), st\<lparr>collections := (collections st)
                       (c := filter (\<lambda>d. \<not> matches q d) (collections st c))\<rparr>)"
  by (simp add: constructor_def store_mongo_def store_deleteMany_def)

subsection \<open>batch\<close>

text \<open>
  Claim C1. When the store reports an inserted count equal to the length of the records,
  \<open>batch\<close> succeeds and should return the sequence of inserted records, as long as the
  input; the documentation comment of the method promises an array as well. The generator
  has no \<open>return\<close> statement: in the insert scenario, where the store inserts the one
  draft and reports the count 1, the call succeeds and its value is \<open>undefined\<close>.
\<close>

theorem batch_returns_undefined:
  "fst (mongo_batch (this_mongo (constructor (store_mongo never_fails)))
          (set_keyid (Some ''02C134D079701934'') [jon]) DB_TYPE empty_store)
     = Inr \<lparr>insertedCount = length [jon]\<rparr>
   \<and> fst (batch (constructor (store_mongo never_fails))
            \<lparr>options_keyid = Some ''02C134D079701934'', options_userIds = Some [jon]\<rparr>
            empty_store)
     = Inr Undefined"
  by (simp add: batch_def store_insertMany_def succeeded_def assign_ids_def
      set_keyid_def enumerate_eq_zip never_fails_def Let_def)

text \<open>
  Claim C2. For every key id and every sequence of records, \<open>batch\<close> throws its error
  \<open>Failed to persist user ids\<close> exactly when the store answers the insert request with
  an inserted count different from the number of records; and the client's state after the
  call is the state in which the store's insert left it: nothing follows the insert.
\<close>

theorem batch_fails_iff_count_differs:
  "(fst (batch this \<lparr>options_keyid = k, options_userIds = Some us\<rparr> s)
      = Inl (Error ''Failed to persist user ids'')
    \<longleftrightarrow> (\<exists>r. fst (mongo_batch (this_mongo this) (set_keyid k us) DB_TYPE s) = Inr r
             \<and> insertedCount r \<noteq> length us))
   \<and> snd (snd (batch this \<lparr>options_keyid = k, options_userIds = Some us\<rparr> s))
       = snd (mongo_batch (this_mongo this) (set_keyid k us) DB_TYPE s)"
  by (auto simp: batch_def Let_def set_keyid_def split: prod.splits sum.splits)

theorem batch_fails_iff_count_differs_witness:
  "fst (mongo_batch (this_mongo (constructor (store_mongo fails_first)))
          (set_keyid (Some ''02C134D079701934'') [jon]) DB_TYPE empty_store)
     = Inr \<lparr>insertedCount = 0\<rparr>
   \<and> fst (batch (constructor (store_mongo fails_first))
            \<lparr>options_keyid = Some ''02C134D079701934'', options_userIds = Some [jon]\<rparr>
            empty_store)
     = Inl (Error ''Failed to persist user ids'')"
  using batch_fails_iff_count_differs
    [of "constructor (store_mongo fails_first)" "Some ''02C134D079701934''" "[jon]" empty_store]
  by (simp add: store_insertMany_def succeeded_def assign_ids_def set_keyid_def
      enumerate_eq_zip fails_first_def Let_def)

subsection \<open>getVerfied\<close>

lemma by_email_Object: "fst (by_email this us s) = Inr (Object r) \<Longrightarrow> verified r = Some True"
proof (induction us arbitrary: s)
  case Nil
  then show ?case by simp
next
  case (Cons uid rest)
  then show ?case
    by (auto split: prod.splits sum.splits option.splits dest: find_verified_SomeD)
qed

lemma try_emails_Object:
  "fst (try_emails this opts s) = Inr (Object r) \<Longrightarrow> verified r = Some True"
  by (auto simp: try_emails_def split: option.splits dest: by_email_Object)

lemma list_keeps_stateD:
  "\<forall>q t. snd (mongo_list m q DB_TYPE t) = t \<Longrightarrow> mongo_list m q DB_TYPE s = (r, s') \<Longrightarrow> s' = s"
  by (metis snd_conv)

lemma by_email_state:
  "\<forall>q t. snd (mongo_list (this_mongo this) q DB_TYPE t) = t \<Longrightarrow> snd (by_email this us s) = s"
proof (induction us arbitrary: s)
  case Nil
  then show ?case by simp
next
  case (Cons uid rest)
  then show ?case
    by (auto split: prod.splits sum.splits option.splits dest: list_keeps_stateD)
qed

lemma try_emails_state:
  "\<forall>q t. snd (mongo_list (this_mongo this) q DB_TYPE t) = t \<Longrightarrow> snd (try_emails this opts s) = s"
  by (simp add: try_emails_def by_email_state split: option.splits)

lemma by_email_none:
  "\<forall>c\<in>set us. lookup_finds_none (this_mongo this) (Email_query (email c)) s
   \<Longrightarrow> by_email this us s = (Inr Undefined, s)"
  by (induction us) (auto simp: lookup_finds_none_def)

lemma by_email_first:
  "\<forall>p\<in>set pre. lookup_finds_none (this_mongo this) (Email_query (email p)) s
   \<Longrightarrow> lookup_finds (this_mongo this) (Email_query (email c)) s v
   \<Longrightarrow> by_email this (pre @ c # post) s = (Inr (Object v), s)"
  by (induction pre) (auto simp: lookup_finds_none_def lookup_finds_def)

lemma by_email_append:
  "fst (by_email this us s) \<noteq> Inr Undefined \<Longrightarrow> by_email this (us @ rest) s = by_email this us s"
  by (induction us arbitrary: s) (auto split: prod.splits sum.splits option.splits)

lemma getVerfied_append:
  "fst (getVerfied this \<lparr>options_keyid = k, options_userIds = Some us\<rparr> s) \<noteq> Inr Undefined
   \<Longrightarrow> getVerfied this \<lparr>options_keyid = k, options_userIds = Some (us @ rest)\<rparr> s
       = getVerfied this \<lparr>options_keyid = k, options_userIds = Some us\<rparr> s"
  by (auto simp: getVerfied_def try_emails_def by_email_append
      split: prod.splits sum.splits option.splits)

lemma getVerfied_keyid_only:
  "K \<noteq> [] \<Longrightarrow> us = None \<or> us = Some [] \<Longrightarrow>
   mongo_list (this_mongo this) (Keyid_query (Some K)) DB_TYPE s = (Inr uids, s') \<Longrightarrow>
   fst (getVerfied this \<lparr>options_keyid = Some K, options_userIds = us\<rparr> s)
     = (case find_verified uids of Some r \<Rightarrow> Inr (Object r) | None \<Rightarrow> Inr Undefined)"
  by (auto simp: getVerfied_def try_emails_def split: option.splits)

lemma find_verified_None_iff:
  "find_verified uids = None \<longleftrightarrow> \<not> (\<exists>u\<in>set uids. verified u = Some True)"
  by (auto simp: find_verified_def find_None_iff truthy_bool_iff)

text \<open>
  Claim C3. For every key id \<open>K\<close> (a key id is a non-empty string of hexadecimal
  digits) and no candidate records, with a client whose \<open>list\<close> answers the filter
  \<open>{ keyid: K }\<close> with the records of the store (\<open>recs\<close>) whose key id is
  \<open>K\<close>: \<open>getVerfied\<close> returns a record of the store with key id \<open>K\<close>
  and \<open>verified\<close> true exactly when the store holds at least one such record; when it
  holds none, the call returns \<open>undefined\<close>.
\<close>

theorem getVerfied_by_keyid:
  assumes "K \<noteq> []" and "us = None \<or> us = Some []"
    and "mongo_list (this_mongo this) (Keyid_query (Some K)) DB_TYPE s = (Inr uids, s')"
    and "set uids = {d \<in> set recs. keyid d = Some K}"
  shows "((\<exists>r. fst (getVerfied this \<lparr>options_keyid = Some K, options_userIds = us\<rparr> s)
                = Inr (Object r)
             \<and> r \<in> set recs \<and> keyid r = Some K \<and> verified r = Some True)
          \<longleftrightarrow> (\<exists>d\<in>set recs. keyid d = Some K \<and> verified d = Some True))
       \<and> (\<not> (\<exists>d\<in>set recs. keyid d = Some K \<and> verified d = Some True)
          \<longrightarrow> fst (getVerfied this \<lparr>options_keyid = Some K, options_userIds = us\<rparr> s)
               = Inr Undefined)"
proof (cases "find_verified uids")
  case None
  then have "\<not> (\<exists>d\<in>set recs. keyid d = Some K \<and> verified d = Some True)"
    using assms(4) by (auto simp: find_verified_None_iff)
  then show ?thesis
    using None by (simp add: getVerfied_keyid_only [OF assms(1-3)])
next
  case (Some r)
  then have "r \<in> set recs \<and> keyid r = Some K \<and> verified r = Some True"
    using assms(4) by (auto dest: find_verified_SomeD)
  then show ?thesis
    using Some by (auto simp: getVerfied_keyid_only [OF assms(1-3)])
qed

theorem getVerfied_by_keyid_witness:
  "bob \<in> set (collections example_store DB_TYPE)
   \<and> keyid bob = Some ''ABCD'' \<and> verified bob = Some True
   \<and> (\<exists>r. fst (getVerfied (constructor (store_mongo never_fails))
                \<lparr>options_keyid = Some ''ABCD'', options_userIds = None\<rparr> example_store)
             = Inr (Object r)
           \<and> r \<in> set (collections example_store DB_TYPE)
           \<and> keyid r = Some ''ABCD'' \<and> verified r = Some True)"
proof -
  have b: "bob \<in> set (collections example_store DB_TYPE)
      \<and> keyid bob = Some ''ABCD'' \<and> verified bob = Some True"
    by (simp add: example_store_def bob_def)
  then have e: "\<exists>d\<in>set (collections example_store DB_TYPE).
      keyid d = Some ''ABCD'' \<and> verified d = Some True"
    by blast
  have l: "mongo_list (this_mongo (constructor (store_mongo never_fails)))
        (Keyid_query (Some ''ABCD'')) DB_TYPE example_store
      = (Inr (filter (matches (Keyid_query (Some ''ABCD''))) (collections example_store DB_TYPE)),
         example_store)"
    by simp
  have m: "set (filter (matches (Keyid_query (Some ''ABCD''))) (collections example_store DB_TYPE))
      = {d \<in> set (collections example_store DB_TYPE). keyid d = Some ''ABCD''}"
    by auto
  have "''ABCD'' \<noteq> []" and "(None :: userid_doc list option) = None \<or> None = Some []"
    by simp_all
  from getVerfied_by_keyid [OF this l m] e b show ?thesis
    by blast
qed

text \<open>
  Claim C4. When the key id is not supplied or its lookup holds no verified record,
  \<open>getVerfied\<close> walks the candidates in the order given and queries the store by each
  one's email address: it passes every candidate whose lookup holds no verified record
  (\<open>pre\<close>) and returns the first verified record of the first candidate whose lookup
  holds one (\<open>c\<close>), whatever candidates follow (\<open>post\<close>). And it stops there: for
  any client at all, once the call on a list of candidates has produced a result, candidates
  appended to the list change neither the result nor the state the client is left in, so
  they are never queried.
\<close>

theorem getVerfied_first_verified_candidate:
  fixes this :: "('e, 's) UserId"
  assumes "\<not> truthy_string k \<or> lookup_finds_none (this_mongo this) (Keyid_query k) s"
    and "\<forall>p\<in>set pre. lookup_finds_none (this_mongo this) (Email_query (email p)) s"
    and "lookup_finds (this_mongo this) (Email_query (email c)) s v"
  shows "getVerfied this \<lparr>options_keyid = k, options_userIds = Some (pre @ c # post)\<rparr> s
           = (Inr (Object v), s)
       \<and> (\<forall>(that :: ('e, 's) UserId) t us rest.
             fst (getVerfied that \<lparr>options_keyid = k, options_userIds = Some us\<rparr> t) \<noteq> Inr Undefined
             \<longrightarrow> getVerfied that \<lparr>options_keyid = k, options_userIds = Some (us @ rest)\<rparr> t
                  = getVerfied that \<lparr>options_keyid = k, options_userIds = Some us\<rparr> t)"
proof -
  have "getVerfied this \<lparr>options_keyid = k, options_userIds = Some (pre @ c # post)\<rparr> s
          = (Inr (Object v), s)"
    using assms(1) by_email_first [OF assms(2,3)]
    by (auto simp: getVerfied_def try_emails_def lookup_finds_none_def)
  then show ?thesis
    by (simp add: getVerfied_append)
qed

theorem getVerfied_first_verified_candidate_witness:
  "find_verified (filter (matches (Email_query (Some ''a@x''))) (collections example_store DB_TYPE))
     = None
   \<and> getVerfied (constructor (store_mongo never_fails))
        \<lparr>options_keyid = None, options_userIds = Some [candidate ''a@x'', candidate ''b@x'']\<rparr>
        example_store
     = (Inr (Object bob), example_store)"
  using getVerfied_first_verified_candidate
    [of None "constructor (store_mongo never_fails)" example_store "[candidate ''a@x'']"
        "candidate ''b@x''" bob "[]"]
  by (simp add: lookup_finds_def lookup_finds_none_def find_verified_def truthy_bool_def
      example_store_def alice_def bob_def carol_def dave_def erin_def candidate_def)

text \<open>
  Claim C8. \<open>getVerfied\<close> never changes the store: the only method of the client it
  calls is \<open>list\<close>, so with a client whose \<open>list\<close> is a pure query the state
  after the call is the state before it, for every input and every state.
\<close>

theorem getVerfied_read_only:
  assumes "\<forall>q t. snd (mongo_list (this_mongo this) q DB_TYPE t) = t"
  shows "snd (getVerfied this opts s) = s"
  using try_emails_state [OF assms] assms
  by (auto simp: getVerfied_def split: prod.splits sum.splits option.splits
      dest: list_keeps_stateD)

theorem getVerfied_read_only_witness:
  "snd (getVerfied (constructor (store_mongo never_fails))
          \<lparr>options_keyid = Some ''EF01'', options_userIds = Some [candidate ''a@x'']\<rparr>
          example_store)
     = example_store"
  using getVerfied_read_only
    [of "constructor (store_mongo never_fails)"
        "\<lparr>options_keyid = Some ''EF01'', options_userIds = Some [candidate ''a@x'']\<rparr>"
        example_store]
  by simp

text \<open>
  Claim C9. When the key id is not supplied or its lookup holds no verified record, and the
  candidates are not supplied or the lookup of each one's email address holds no verified
  record, \<open>getVerfied\<close> returns \<open>undefined\<close> and throws nothing. This covers the
  call with neither a key id nor candidates, which makes no query.
\<close>

theorem getVerfied_none:
  assumes "truthy_string (options_keyid opts)
             \<longrightarrow> lookup_finds_none (this_mongo this) (Keyid_query (options_keyid opts)) s"
    and "\<forall>us. options_userIds opts = Some us
             \<longrightarrow> (\<forall>c\<in>set us. lookup_finds_none (this_mongo this) (Email_query (email c)) s)"
  shows "getVerfied this opts s = (Inr Undefined, s)"
  using assms
  by (auto simp: getVerfied_def try_emails_def lookup_finds_none_def by_email_none
      split: option.splits)

theorem getVerfied_none_witness:
  "getVerfied (constructor (store_mongo never_fails))
     \<lparr>options_keyid = Some ''9999'', options_userIds = Some [candidate ''a@x'', candidate ''d@x'']\<rparr>
     example_store
     = (Inr Undefined, example_store)
   \<and> getVerfied (constructor (store_mongo never_fails))
       \<lparr>options_keyid = None, options_userIds = None\<rparr> example_store
     = (Inr Undefined, example_store)"
  using getVerfied_none
    [of "\<lparr>options_keyid = Some ''9999'',
           options_userIds = Some [candidate ''a@x'', candidate ''d@x'']\<rparr>"
        "constructor (store_mongo never_fails)" example_store]
    getVerfied_none
    [of "\<lparr>options_keyid = None, options_userIds = None\<rparr>"
        "constructor (store_mongo never_fails)" example_store]
  by (simp add: lookup_finds_def lookup_finds_none_def find_verified_def truthy_bool_def
      example_store_def alice_def bob_def carol_def dave_def erin_def candidate_def)

text \<open>
  Claim C10. Whenever \<open>getVerfied\<close> returns a record, found by the key id or by a
  candidate's email address, the \<open>verified\<close> field of that record is true: a record
  whose \<open>verified\<close> is false or unset is never returned.
\<close>

theorem getVerfied_returns_verified:
  "fst (getVerfied this opts s) = Inr (Object r) \<Longrightarrow> verified r = Some True"
  by (auto simp: getVerfied_def split: if_splits prod.splits sum.splits option.splits
      dest: try_emails_Object find_verified_SomeD)

theorem getVerfied_returns_verified_witness:
  "fst (getVerfied (constructor (store_mongo never_fails))
          \<lparr>options_keyid = Some ''EF01'', options_userIds = Some [candidate ''a@x'']\<rparr>
          example_store)
     = Inr (Object erin)
   \<and> verified erin = Some True"
proof -
  have h: "fst (getVerfied (constructor (store_mongo never_fails))
          \<lparr>options_keyid = Some ''EF01'', options_userIds = Some [candidate ''a@x'']\<rparr>
          example_store) = Inr (Object erin)"
    by (simp add: getVerfied_def find_verified_def truthy_bool_def example_store_def
        alice_def bob_def carol_def dave_def erin_def candidate_def)
  show ?thesis
    using h getVerfied_returns_verified [OF h] by simp
qed

subsection \<open>batch and the caller's drafts\<close>

lemma set_mono_map_filter: "set (map f (filter P xs)) \<subseteq> set (map f xs)"
  by auto

lemma set_succeeded: "set (succeeded fails recs) \<subseteq> set recs"
proof -
  have "set (map snd (filter (\<lambda>p. \<not> fails (fst p)) (enumerate 0 recs)))
          \<subseteq> set (map snd (enumerate 0 recs))"
    by (rule set_mono_map_filter)
  then show ?thesis
    by (simp add: succeeded_def)
qed

lemma keyid_assign_ids: "d \<in> set (assign_ids n recs) \<Longrightarrow> \<exists>r\<in>set recs. keyid d = keyid r"
proof -
  assume "d \<in> set (assign_ids n recs)"
  then obtain i r where "(i, r) \<in> set (enumerate n recs)" and d: "d = r\<lparr>doc_id := Some i\<rparr>"
    by (auto simp: assign_ids_def)
  then have "r \<in> set recs"
    by (auto simp: enumerate_eq_zip dest: set_zip_rightD)
  with d show ?thesis
    by auto
qed

lemma keyid_set_keyid: "d \<in> set (set_keyid k us) \<Longrightarrow> keyid d = k"
  by (auto simp: set_keyid_def)

lemma store_batch_collection:
  "collections (snd (snd (batch (constructor (store_mongo fails))
       \<lparr>options_keyid = k, options_userIds = Some us\<rparr> st))) DB_TYPE
     = collections st DB_TYPE @ assign_ids (next_id st) (succeeded fails (set_keyid k us))"
  by (simp add: batch_def store_insertMany_def Let_def)

text \<open>
  Claim C5. The records \<open>batch\<close> hands to the store are the caller's drafts with the
  \<open>keyid\<close> field of each one set to the key id supplied, whatever the draft held there:
  there are as many as drafts, every one carries the key id supplied, and the client's state
  after the call is what its insert made of exactly this request. With the store of the
  specification, every record of the collection after the call was there before or carries
  the key id supplied.
\<close>

theorem batch_persists_supplied_keyid:
  "length (set_keyid k us) = length us
   \<and> (\<forall>d\<in>set (set_keyid k us). keyid d = k)
   \<and> (\<forall>i<length us. set_keyid k us ! i = (us ! i)\<lparr>keyid := k\<rparr>)
   \<and> snd (snd (batch this \<lparr>options_keyid = k, options_userIds = Some us\<rparr> s))
       = snd (mongo_batch (this_mongo this) (set_keyid k us) DB_TYPE s)
   \<and> (\<forall>d\<in>set (collections (snd (snd (batch (constructor (store_mongo fails))
                     \<lparr>options_keyid = k, options_userIds = Some us\<rparr> st))) DB_TYPE).
         d \<in> set (collections st DB_TYPE) \<or> keyid d = k)"
proof -
  have a: "length (set_keyid k us) = length us"
    by (simp add: set_keyid_def)
  have b: "\<forall>d\<in>set (set_keyid k us). keyid d = k"
    by (simp add: keyid_set_keyid)
  have c: "\<forall>i<length us. set_keyid k us ! i = (us ! i)\<lparr>keyid := k\<rparr>"
    by (simp add: set_keyid_def)
  have d: "snd (snd (batch this \<lparr>options_keyid = k, options_userIds = Some us\<rparr> s))
       = snd (mongo_batch (this_mongo this) (set_keyid k us) DB_TYPE s)"
    by (auto simp: batch_def Let_def split: prod.splits sum.splits)
  have e: "keyid x = k" if "x \<in> set (assign_ids (next_id st) (succeeded fails (set_keyid k us)))" for x
  proof -
    from keyid_assign_ids [OF that] obtain r
      where "r \<in> set (succeeded fails (set_keyid k us))" and "keyid x = keyid r"
      by blast
    then show ?thesis
      using set_succeeded [of fails "set_keyid k us"] keyid_set_keyid [of r k us] by auto
  qed
  have f: "\<forall>d\<in>set (collections (snd (snd (batch (constructor (store_mongo fails))
                     \<lparr>options_keyid = k, options_userIds = Some us\<rparr> st))) DB_TYPE).
         d \<in> set (collections st DB_TYPE) \<or> keyid d = k"
    unfolding store_batch_collection using e by auto
  from a b c d f show ?thesis by blast
qed

theorem batch_persists_supplied_keyid_witness:
  "keyid jon_stale = Some ''FFFFFFFFFFFFFFFF''
   \<and> collections (snd (snd (batch (constructor (store_mongo never_fails))
        \<lparr>options_keyid = Some ''02C134D079701934'', options_userIds = Some [jon_stale]\<rparr>
        empty_store))) DB_TYPE
     = [jon\<lparr>doc_id := Some 0, keyid := Some ''02C134D079701934''\<rparr>]"
  using batch_persists_supplied_keyid
    [of "Some ''02C134D079701934''" "[jon_stale]" "constructor (store_mongo never_fails)"
        empty_store never_fails empty_store]
  by (simp add: batch_def store_insertMany_def succeeded_def assign_ids_def
      set_keyid_def enumerate_eq_zip never_fails_def Let_def
      empty_store_def jon_def jon_stale_def)

text \<open>
  Claim C6. \<open>batch\<close> should change no state in memory, the caller's drafts included.
  The first statement of the method assigns \<open>u.keyid\<close> on every draft: after the call
  on the draft of the insert scenario, which has no key id, the caller's draft is no longer
  what it was.
\<close>

theorem batch_writes_drafts_counterexample:
  "options_userIds (fst (snd (batch (constructor (store_mongo never_fails))
      \<lparr>options_keyid = Some ''02C134D079701934'', options_userIds = Some [jon]\<rparr> empty_store)))
     \<noteq> Some [jon]"
  by (simp add: batch_def store_insertMany_def succeeded_def assign_ids_def
      set_keyid_def enumerate_eq_zip never_fails_def Let_def jon_def)

text \<open>
  Claim C6, amended. \<open>batch\<close> writes one thing in memory: the \<open>keyid\<close> field of
  each draft of the caller, which it sets to the key id supplied. After the call the
  \<open>options\<close> object holds the same key id and as many drafts as before, each with its
  identifier, email address, name, nonce and verified flag as they were; drafts that already
  carried the key id supplied are left as they were. The controller holds nothing but the
  reference to its client, which no method assigns.
\<close>

theorem batch_writes_only_keyid:
  "options_keyid (fst (snd (batch this \<lparr>options_keyid = k, options_userIds = Some us\<rparr> s))) = k
   \<and> (\<exists>docs. options_userIds (fst (snd (batch this \<lparr>options_keyid = k, options_userIds = Some us\<rparr> s)))
               = Some docs
        \<and> length docs = length us
        \<and> (\<forall>i<length us. keyid (docs ! i) = k
              \<and> doc_id (docs ! i) = doc_id (us ! i) \<and> email (docs ! i) = email (us ! i)
              \<and> name (docs ! i) = name (us ! i) \<and> nonce (docs ! i) = nonce (us ! i)
              \<and> verified (docs ! i) = verified (us ! i)))
   \<and> ((\<forall>u\<in>set us. keyid u = k)
        \<longrightarrow> fst (snd (batch this \<lparr>options_keyid = k, options_userIds = Some us\<rparr> s))
             = \<lparr>options_keyid = k, options_userIds = Some us\<rparr>)"
proof -
  have o: "fst (snd (batch this \<lparr>options_keyid = k, options_userIds = Some us\<rparr> s))
      = \<lparr>options_keyid = k, options_userIds = Some (set_keyid k us)\<rparr>"
    by (auto simp: batch_def Let_def split: prod.splits sum.splits)
  have same: "set_keyid k us = us" if "\<forall>u\<in>set us. keyid u = k"
    using that by (induction us) (auto simp: set_keyid_def)
  show ?thesis
    unfolding o using same by (simp add: set_keyid_def)
qed

theorem batch_writes_only_keyid_witness:
  "fst (snd (batch (constructor (store_mongo never_fails))
      \<lparr>options_keyid = Some ''02C134D079701934'', options_userIds = Some [jon_stale]\<rparr> empty_store))
     = \<lparr>options_keyid = Some ''02C134D079701934'',
        options_userIds = Some [jon\<lparr>keyid := Some ''02C134D079701934''\<rparr>]\<rparr>
   \<and> fst (snd (batch (constructor (store_mongo never_fails))
      \<lparr>options_keyid = Some ''FFFFFFFFFFFFFFFF'', options_userIds = Some [jon_stale]\<rparr> empty_store))
     = \<lparr>options_keyid = Some ''FFFFFFFFFFFFFFFF'', options_userIds = Some [jon_stale]\<rparr>"
  using batch_writes_only_keyid
    [of "constructor (store_mongo never_fails)" "Some ''02C134D079701934''" "[jon_stale]" empty_store]
    batch_writes_only_keyid
    [of "constructor (store_mongo never_fails)" "Some ''FFFFFFFFFFFFFFFF''" "[jon_stale]" empty_store]
  by (simp add: batch_def store_insertMany_def succeeded_def assign_ids_def
      set_keyid_def enumerate_eq_zip never_fails_def Let_def
      jon_def jon_stale_def)

subsection \<open>remove\<close>

lemma filter_other_keyid:
  "\<forall>d\<in>set xs. keyid d \<noteq> Some K \<Longrightarrow> filter (\<lambda>d. keyid d \<noteq> Some K) xs = xs"
  by (induction xs) auto

text \<open>
  Claim C7. \<open>remove\<close> for the key id \<open>K\<close> leaves its client in the state in
  which the client's \<open>remove\<close> of the filter \<open>{ keyid: K }\<close> left it. With the
  store of the specification, the call succeeds with no value and deletes exactly the
  records of the collection whose key id is \<open>K\<close>: the records with any other key
  id stay, in their order, and the other collections are untouched. When no record matches,
  the call succeeds and the store is unchanged; so a second call right after the first
  succeeds and changes nothing.
\<close>

theorem remove_deletes_matching:
  "snd (remove this \<lparr>options_keyid = Some K, options_userIds = us\<rparr> s)
     = snd (mongo_remove (this_mongo this) (Keyid_query (Some K)) DB_TYPE s)
   \<and> fst (remove (constructor (store_mongo fails)) \<lparr>options_keyid = Some K, options_userIds = us\<rparr> st)
     = Inr Undefined
   \<and> collections (snd (remove (constructor (store_mongo fails))
                        \<lparr>options_keyid = Some K, options_userIds = us\<rparr> st)) DB_TYPE
       = filter (\<lambda>d. keyid d \<noteq> Some K) (collections st DB_TYPE)
   \<and> (\<forall>c. c \<noteq> DB_TYPE \<longrightarrow>
         collections (snd (remove (constructor (store_mongo fails))
                        \<lparr>options_keyid = Some K, options_userIds = us\<rparr> st)) c
           = collections st c)
   \<and> next_id (snd (remove (constructor (store_mongo fails))
                        \<lparr>options_keyid = Some K, options_userIds = us\<rparr> st)) = next_id st
   \<and> ((\<forall>d\<in>set (collections st DB_TYPE). keyid d \<noteq> Some K) \<longrightarrow>
         remove (constructor (store_mongo fails)) \<lparr>options_keyid = Some K, options_userIds = us\<rparr> st
           = (Inr Undefined, st))
   \<and> remove (constructor (store_mongo fails)) \<lparr>options_keyid = Some K, options_userIds = us\<rparr>
         (snd (remove (constructor (store_mongo fails))
                 \<lparr>options_keyid = Some K, options_userIds = us\<rparr> st))
       = remove (constructor (store_mongo fails)) \<lparr>options_keyid = Some K, options_userIds = us\<rparr> st"
proof -
  have "snd (remove this \<lparr>options_keyid = Some K, options_userIds = us\<rparr> s)
     = snd (mongo_remove (this_mongo this) (Keyid_query (Some K)) DB_TYPE s)"
    by (auto simp: remove_def split: prod.splits sum.splits)
  then show ?thesis
    by (auto simp: remove_def filter_other_keyid)
qed

theorem remove_deletes_matching_witness:
  "collections example_store DB_TYPE = [alice, bob, carol, dave, erin]
   \<and> collections (snd (remove (constructor (store_mongo never_fails))
                        \<lparr>options_keyid = Some ''ABCD'', options_userIds = None\<rparr> example_store))
        DB_TYPE
       = [dave, erin]
   \<and> remove (constructor (store_mongo never_fails))
        \<lparr>options_keyid = Some ''ABCD'', options_userIds = None\<rparr>
        (snd (remove (constructor (store_mongo never_fails))
                \<lparr>options_keyid = Some ''ABCD'', options_userIds = None\<rparr> example_store))
       = remove (constructor (store_mongo never_fails))
           \<lparr>options_keyid = Some ''ABCD'', options_userIds = None\<rparr> example_store"
proof -
  note r = remove_deletes_matching
    [of "constructor (store_mongo never_fails)" "''ABCD''" None example_store never_fails
        example_store]
  have a: "collections example_store DB_TYPE = [alice, bob, carol, dave, erin]"
    by (simp add: example_store_def)
  from r have b: "collections (snd (remove (constructor (store_mongo never_fails))
                        \<lparr>options_keyid = Some ''ABCD'', options_userIds = None\<rparr> example_store))
        DB_TYPE
       = filter (\<lambda>d. keyid d \<noteq> Some ''ABCD'') (collections example_store DB_TYPE)"
    by blast
  from r have c: "remove (constructor (store_mongo never_fails))
        \<lparr>options_keyid = Some ''ABCD'', options_userIds = None\<rparr>
        (snd (remove (constructor (store_mongo never_fails))
                \<lparr>options_keyid = Some ''ABCD'', options_userIds = None\<rparr> example_store))
       = remove (constructor (store_mongo never_fails))
           \<lparr>options_keyid = Some ''ABCD'', options_userIds = None\<rparr> example_store"
    by blast
  show ?thesis
    unfolding b c a by (simp add: alice_def bob_def carol_def dave_def erin_def)
qed

end
